theory Spec2Isabelle
  imports Main "HOL-Library.AList"
begin

section \<open>Configuration and time\<close>

text \<open>
  The module constants of \<^verbatim>\<open>auto_bot.py\<close>. \<^verbatim>\<open>BOT_TOKEN\<close> is not used by any handler;
  \<^verbatim>\<open>CHANNEL_ID\<close> and \<^verbatim>\<open>ADMINS\<close> come from the environment and are a parameter of the
  handlers.
\<close>

record config =
  CHANNEL_ID :: string
  ADMINS :: "int list"

definition MAX_QUEUE_SIZE :: nat where
  "MAX_QUEUE_SIZE = 50"

definition RATE_LIMIT_COUNT :: nat where
  "RATE_LIMIT_COUNT = 3"

definition RATE_LIMIT_WINDOW :: int where
  "RATE_LIMIT_WINDOW = 300"

text \<open>
  A \<^verbatim>\<open>datetime\<close> has microsecond resolution: a point in time is its number of
  microseconds since a fixed origin, a \<^verbatim>\<open>timedelta\<close> a number of microseconds.
\<close>

type_synonym datetime = int
type_synonym timedelta = int

definition timedelta_seconds :: "int \<Rightarrow> timedelta" where
  "timedelta_seconds n = n * 1000000"

text \<open>
  \<^verbatim>\<open>int(td.total_seconds())\<close> goes through a float: \<^verbatim>\<open>total_seconds\<close> is the true
  division of the microsecond count by \<open>10\<^sup>6\<close>, that is the double nearest to the exact
  quotient (53 significant bits, ties to the even significand), and \<^verbatim>\<open>int\<close> truncates
  that double towards zero. The three definitions below compute this on integers.
  \<open>bit_length\<close> is Python's \<^verbatim>\<open>int.bit_length\<close>; \<open>round_half_even a b\<close> is the integer
  nearest to \<open>a / b\<close>; \<open>int_true_div n m\<close> is \<^verbatim>\<open>int(n / m)\<close> for \<open>n \<ge> 0\<close> and
  \<open>m > 0\<close>: the quotient is scaled by the power of two \<open>s\<close> that brings it into
  \<open>[2\<^sup>5\<^sup>2, 2\<^sup>5\<^sup>3)\<close>, rounded there, and scaled back. (A \<^verbatim>\<open>timedelta\<close> is far from the
  overflow and the subnormal range of a double.)
\<close>

function bit_length :: "int \<Rightarrow> nat" where
  "bit_length n = (if n \<le> 0 then 0 else Suc (bit_length (n div 2)))"
  by pat_completeness auto
termination
  by (relation "measure nat") auto

declare bit_length.simps [simp del]

definition round_half_even :: "int \<Rightarrow> int \<Rightarrow> int" where
  "round_half_even a b =
     (let q = a div b; r = a mod b
      in if 2 * r < b then q else if b < 2 * r then q + 1 else if even q then q else q + 1)"

definition int_true_div :: "int \<Rightarrow> int \<Rightarrow> int" where
  "int_true_div n m =
     (if n = 0 then 0
      else
        (let s0 = 53 + int (bit_length m) - int (bit_length n);
             s = (if (if 0 \<le> s0 then n * 2 ^ nat s0 < 2 ^ 53 * m
                      else n < 2 ^ 53 * m * 2 ^ nat (- s0))
                  then s0 else s0 - 1)
         in if 0 \<le> s then round_half_even (n * 2 ^ nat s) m div 2 ^ nat s
            else round_half_even n (m * 2 ^ nat (- s)) * 2 ^ nat (- s)))"

definition int_total_seconds :: "timedelta \<Rightarrow> int" where
  "int_total_seconds d =
     (if 0 \<le> d then int_true_div d 1000000 else - int_true_div (- d) 1000000)"

section \<open>The rate limiter\<close>

text \<open>
  \<^verbatim>\<open>user_submissions\<close> is a \<^verbatim>\<open>defaultdict(list)\<close>: a user never seen has the empty
  list. \<^verbatim>\<open>check_rate_limit\<close> reads the clock once (\<open>now\<close>), replaces the user's list by
  its entries younger than the window, and answers from the pruned list.
\<close>

type_synonym submissions = "int \<Rightarrow> datetime list"

definition in_window :: "datetime \<Rightarrow> datetime \<Rightarrow> bool" where
  "in_window now ts = (now - ts < timedelta_seconds RATE_LIMIT_WINDOW)"

definition check_rate_limit :: "submissions \<Rightarrow> int \<Rightarrow> datetime \<Rightarrow> submissions \<times> bool \<times> int" where
  "check_rate_limit subs user_id now =
     (let kept = filter (in_window now) (subs user_id);
          subs' = subs(user_id := kept)
      in if RATE_LIMIT_COUNT \<le> length kept
         then (let oldest = min_list kept;
                   wait_until = oldest + timedelta_seconds RATE_LIMIT_WINDOW
               in (subs', False, int_total_seconds (wait_until - now)))
         else (subs', True, 0))"

section \<open>Messages, queue entries and the bot's state\<close>

text \<open>
  The fields of a Telegram message that the handlers read. \<^verbatim>\<open>msg.photo\<close> is the tuple
  of the photo's sizes (the file ids here, empty when there is no photo); the other
  media hold the file id when present.
\<close>

record message =
  msg_chat_type :: string
  msg_chat_id :: int
  msg_message_id :: int
  msg_from_id :: int
  msg_first_name :: "string option"
  msg_username :: "string option"
  msg_text :: "string option"
  msg_caption :: "string option"
  msg_photo :: "string list"
  msg_video :: "string option"
  msg_document :: "string option"
  msg_voice :: "string option"

text \<open>Python's truthiness of an optional string, and \<^verbatim>\<open>x or d\<close> on it.\<close>

definition truthy :: "string option \<Rightarrow> bool" where
  "truthy x = (case x of None \<Rightarrow> False | Some t \<Rightarrow> t \<noteq> [])"

definition str_or :: "string option \<Rightarrow> string \<Rightarrow> string" where
  "str_or x d = (case x of None \<Rightarrow> d | Some t \<Rightarrow> if t = [] then d else t)"

text \<open>An integer stored under a dictionary key is truthy when present and not zero.\<close>

definition truthy_int :: "int option \<Rightarrow> bool" where
  "truthy_int x = (case x of None \<Rightarrow> False | Some n \<Rightarrow> n \<noteq> 0)"

definition msg_has_media :: "message \<Rightarrow> bool" where
  "msg_has_media msg =
     (msg_photo msg \<noteq> [] \<or> msg_video msg \<noteq> None \<or> msg_document msg \<noteq> None
        \<or> msg_voice msg \<noteq> None)"

text \<open>
  \<^verbatim>\<open>format_sender_info\<close> renders three values into one string; the model keeps the
  three values.
\<close>

type_synonym sender_info = "string \<times> string \<times> int"

definition format_sender_info :: "message \<Rightarrow> sender_info" where
  "format_sender_info msg =
     (str_or (msg_first_name msg) ''Unknown'',
      (if truthy (msg_username msg) then CHR ''@'' # the (msg_username msg) else ''No username''),
      msg_from_id msg)"

text \<open>
  The dictionary built at lines 175 to 189. The key \<^verbatim>\<open>edited_caption\<close> does not exist
  until an edit writes it; it is only ever read with \<^verbatim>\<open>entry.get\<close>, so absence is
  \<open>None\<close>.
\<close>

record entry =
  chat_id :: int
  message_id :: int
  has_media :: bool
  entry_text :: string
  entry_caption :: string
  message_obj :: message
  sender_info :: sender_info
  sender_id :: int
  sender_name :: string
  sender_username :: "string option"
  edited_text :: "string option"
  edited_caption :: "string option"
  timestamp :: datetime
  admin_messages :: "int \<rightharpoonup> int"

text \<open>
  The globals and the per-user data of the handlers. \<open>queue\<close> is the dictionary in
  insertion order (keys distinct), \<open>qid_counter\<close> the global \<^verbatim>\<open>_next_qid\<close>, and
  \<open>editing_qid u\<close> the value of \<^verbatim>\<open>context.user_data['editing_qid']\<close> of user \<open>u\<close>.
\<close>

record state =
  queue :: "(int \<times> entry) list"
  qid_counter :: int
  user_submissions :: submissions
  editing_qid :: "int \<Rightarrow> int option"

definition initial_state :: state where
  "initial_state =
     \<lparr>queue = [], qid_counter = 1, user_submissions = (\<lambda>_. []), editing_qid = (\<lambda>_. None)\<rparr>"

definition next_qid :: "state \<Rightarrow> int \<times> state" where
  "next_qid s = (qid_counter s, s\<lparr>qid_counter := qid_counter s + 1\<rparr>)"

text \<open>\<^verbatim>\<open>list.index\<close>, with \<open>None\<close> for the \<^verbatim>\<open>ValueError\<close> that the caller catches.\<close>

fun index_of :: "int list \<Rightarrow> int \<Rightarrow> nat option" where
  "index_of [] x = None"
| "index_of (y # ys) x = (if y = x then Some 0 else map_option Suc (index_of ys x))"

definition get_queue_position :: "(int \<times> entry) list \<Rightarrow> int \<Rightarrow> nat option" where
  "get_queue_position q qid = map_option (\<lambda>i. i + 1) (index_of (sort (map fst q)) qid)"

section \<open>What the handlers send\<close>

text \<open>
  The texts the bot renders, as the values they interpolate. A preview is the first 300
  characters and whether the ellipsis was appended.
\<close>

datatype notice =
    RateLimitExceeded int int
  | QueueIsFull
  | SendTextOnly
  | InQueue "nat option" nat
  | NewTextSubmission int sender_info string
  | NewMediaSubmission int sender_info string
  | BadCallbackData
  | NotAuthorizedToModerate
  | NotFoundOrHandled
  | DetailsView int bool sender_info datetime "nat option" nat bool string "string option"
  | MainView int bool sender_info "string \<times> bool"
  | EditPrompt int bool string
  | EditCancelled
  | RejectedView int
  | RejectedNotice
  | ApprovedView int
  | ApprovedNotice
  | ErrorPosting int
  | NotAuthorized
  | SubmissionNotFound
  | EditedView int bool sender_info string
  | UpdatedAbove
  | UpdatedFor int bool

text \<open>
  The calls on the transport: \<open>Reply\<close> is \<^verbatim>\<open>msg.reply_text\<close> (to the chat of the
  incoming message), \<open>EditAdminMessage\<close> is \<^verbatim>\<open>edit_admin_message(query, ...)\<close> (the
  view of the moderator who pressed the button), \<open>SendMessage\<close> and \<open>EditMessage\<close> are
  the bot's calls to a chat, and the \<open>Publish\<close> constructors are the sends to
  \<^verbatim>\<open>CHANNEL_ID\<close>.
\<close>

datatype effect =
    Reply int notice
  | EditAdminMessage int notice
  | SendMessage int notice
  | EditMessage int int notice
  | PublishMessage string string
  | PublishPhoto string string "string option"
  | PublishVideo string string "string option"
  | PublishDocument string string "string option"
  | PublishVoice string string "string option"

text \<open>
  What a handler reads from outside: the three clock readings of
  \<^verbatim>\<open>handle_private_message\<close> (in \<^verbatim>\<open>check_rate_limit\<close>, for the entry, and for the
  recorded timestamp), the message id of the notification delivered to each moderator
  (\<open>None\<close> when the send raised), and whether the edit of a moderator's message and the
  send to the channel succeed.
\<close>

record world =
  now_check :: datetime
  now_entry :: datetime
  now_record :: datetime
  admin_sent :: "int \<Rightarrow> int option"
  edit_ok :: bool
  publish_ok :: bool

section \<open>Editing\<close>

definition edited_view :: "int \<Rightarrow> entry \<Rightarrow> string \<Rightarrow> notice" where
  "edited_view qid e new_text =
     EditedView qid (has_media e) (sender_info e)
       (if has_media e then str_or (Some new_text) ''(empty)'' else new_text)"

text \<open>
  \<^verbatim>\<open>handle_edit_text\<close>; the message is the update's message and its sender the
  effective user.
\<close>

definition handle_edit_text :: "config \<Rightarrow> world \<Rightarrow> message \<Rightarrow> state \<Rightarrow> state \<times> effect list" where
  "handle_edit_text cfg w msg s =
     (if msg_chat_type msg \<noteq> ''private'' then (s, [])
      else if msg_from_id msg \<notin> set (ADMINS cfg)
      then (s, [Reply (msg_chat_id msg) NotAuthorized])
      else if \<not> truthy_int (editing_qid s (msg_from_id msg)) then (s, [])
      else
        (let qid = the (editing_qid s (msg_from_id msg));
             admin_id = msg_from_id msg
         in case map_of (queue s) qid of
              None \<Rightarrow>
                (s\<lparr>editing_qid := (editing_qid s)(admin_id := None)\<rparr>,
                 [Reply (msg_chat_id msg) SubmissionNotFound])
            | Some e \<Rightarrow>
                (let new_text = str_or (msg_text msg) [];
                     e' = (if has_media e then e\<lparr>edited_caption := Some new_text\<rparr>
                           else e\<lparr>edited_text := Some new_text\<rparr>);
                     s' = s\<lparr>queue := AList.update qid e' (queue s),
                            editing_qid := (editing_qid s)(admin_id := None)\<rparr>;
                     admin_message_id = admin_messages e' admin_id;
                     updated = edited_view qid e' new_text
                 in if truthy_int admin_message_id \<and> edit_ok w
                    then (s', [EditMessage admin_id (the admin_message_id) updated,
                               Reply (msg_chat_id msg) UpdatedAbove])
                    else (s', [SendMessage admin_id updated,
                               Reply (msg_chat_id msg) (UpdatedFor qid (has_media e'))]))))"

text \<open>\<^verbatim>\<open>cancel_edit\<close>, the handler of the \<^verbatim>\<open>/cancel\<close> command.\<close>

definition cancel_edit :: "message \<Rightarrow> state \<Rightarrow> state \<times> effect list" where
  "cancel_edit msg s =
     (s\<lparr>editing_qid := (editing_qid s)(msg_from_id msg := None)\<rparr>,
      [Reply (msg_chat_id msg) EditCancelled])"

section \<open>Submitting\<close>

text \<open>
  The loop over \<^verbatim>\<open>ADMINS\<close> at lines 215 to 237: a text message is sent as text, anything
  else goes through \<^verbatim>\<open>forward_media_to_admin\<close>, which sends nothing (and returns
  \<^verbatim>\<open>None\<close>) when the message has none of the four media. The id of a delivered
  notification is stored in the entry if the entry is still queued. The four media
  sends to a moderator are one effect here, \<open>SendMessage\<close> of a media notice.
\<close>

definition admin_notice :: "message \<Rightarrow> int \<Rightarrow> sender_info \<Rightarrow> notice option" where
  "admin_notice msg qid info =
     (if truthy (msg_text msg) then Some (NewTextSubmission qid info (the (msg_text msg)))
      else if msg_has_media msg
      then Some (NewMediaSubmission qid info (str_or (msg_caption msg) ''(none)''))
      else None)"

fun notify_admins ::
  "world \<Rightarrow> message \<Rightarrow> int \<Rightarrow> sender_info \<Rightarrow> int list \<Rightarrow> (int \<times> entry) list
     \<Rightarrow> (int \<times> entry) list \<times> effect list" where
  "notify_admins w msg qid info [] q = (q, [])"
| "notify_admins w msg qid info (admin # admins) q =
     (case admin_notice msg qid info of
        None \<Rightarrow> notify_admins w msg qid info admins q
      | Some n \<Rightarrow>
          (case admin_sent w admin of
             None \<Rightarrow> notify_admins w msg qid info admins q
           | Some mid \<Rightarrow>
               (let q' = (case map_of q qid of
                            None \<Rightarrow> q
                          | Some e \<Rightarrow>
                              AList.update qid
                                (e\<lparr>admin_messages := (admin_messages e)(admin \<mapsto> mid)\<rparr>) q);
                    r = notify_admins w msg qid info admins q'
                in (fst r, SendMessage admin n # snd r))))"

definition new_entry :: "world \<Rightarrow> message \<Rightarrow> entry" where
  "new_entry w msg =
     \<lparr>chat_id = msg_chat_id msg,
      message_id = msg_message_id msg,
      has_media = msg_has_media msg,
      entry_text = str_or (msg_text msg) [],
      entry_caption = str_or (msg_caption msg) [],
      message_obj = msg,
      sender_info = format_sender_info msg,
      sender_id = msg_from_id msg,
      sender_name = str_or (msg_first_name msg) ''Unknown'',
      sender_username = (if truthy (msg_username msg) then msg_username msg else None),
      edited_text = None,
      edited_caption = None,
      timestamp = now_entry w,
      admin_messages = Map.empty\<rparr>"

text \<open>
  \<^verbatim>\<open>handle_private_message\<close>. The order is the source's: the rate limit, the queue
  size, and only then the test for a moderator who is editing.
\<close>

definition handle_private_message ::
  "config \<Rightarrow> world \<Rightarrow> message \<Rightarrow> state \<Rightarrow> state \<times> effect list" where
  "handle_private_message cfg w msg s =
     (if msg_chat_type msg \<noteq> ''private'' then (s, [])
      else
        (let user_id = msg_from_id msg;
             chk = check_rate_limit (user_submissions s) user_id (now_check w);
             allowed = fst (snd chk);
             wait_seconds = snd (snd chk);
             s1 = s\<lparr>user_submissions := fst chk\<rparr>
         in if \<not> allowed
            then (s1, [Reply (msg_chat_id msg)
                         (RateLimitExceeded (wait_seconds div 60) (wait_seconds mod 60))])
            else if MAX_QUEUE_SIZE \<le> length (queue s1)
            then (s1, [Reply (msg_chat_id msg) QueueIsFull])
            else if user_id \<in> set (ADMINS cfg) \<and> truthy_int (editing_qid s1 user_id)
            then (if truthy (msg_text msg) then handle_edit_text cfg w msg s1
                  else (s1, [Reply (msg_chat_id msg) SendTextOnly]))
            else
              (let qid = fst (next_qid s1);
                   s2 = snd (next_qid s1);
                   e = new_entry w msg;
                   s3 = s2\<lparr>queue := AList.update qid e (queue s2)\<rparr>;
                   position = get_queue_position (queue s3) qid;
                   s4 = s3\<lparr>user_submissions :=
                            (user_submissions s3)
                              (user_id := user_submissions s3 user_id @ [now_record w])\<rparr>;
                   r = notify_admins w msg qid (sender_info e) (ADMINS cfg) (queue s4)
               in (s4\<lparr>queue := fst r\<rparr>,
                   Reply (msg_chat_id msg) (InQueue position (length (queue s4))) # snd r))))"

section \<open>Moderating\<close>

text \<open>
  The callback data after lines 265 to 270: \<open>Malformed\<close> when the split or the
  conversion to an integer raised, the action and the queue id otherwise.
\<close>

datatype callback_data = Malformed | Parsed string int

definition is_edited :: "entry \<Rightarrow> bool" where
  "is_edited e = (truthy (edited_text e) \<or> truthy (edited_caption e))"

definition details_view :: "(int \<times> entry) list \<Rightarrow> int \<Rightarrow> entry \<Rightarrow> notice" where
  "details_view q qid e =
     DetailsView qid (is_edited e) (sender_info e) (timestamp e)
       (get_queue_position q qid) (length q) (has_media e)
       (if has_media e then str_or (Some (entry_caption e)) ''(none)'' else entry_text e)
       (if has_media e
        then (if truthy (edited_caption e) then edited_caption e else None)
        else (if truthy (edited_text e) then edited_text e else None))"

definition preview_of :: "entry \<Rightarrow> string \<times> bool" where
  "preview_of e =
     (let preview =
            (if truthy (edited_text e) then the (edited_text e)
             else if truthy (edited_caption e) then the (edited_caption e)
             else str_or (Some (entry_text e))
                    (str_or (Some (entry_caption e))
                       (if has_media e then ''<media>'' else ''<empty>'')))
      in if 300 < length preview then (take 300 preview, True) else (preview, False))"

definition main_view :: "int \<Rightarrow> entry \<Rightarrow> notice" where
  "main_view qid e = MainView qid (is_edited e) (sender_info e) (preview_of e)"

definition edit_prompt :: "int \<Rightarrow> entry \<Rightarrow> notice" where
  "edit_prompt qid e =
     EditPrompt qid (has_media e)
       (if has_media e then entry_caption e else str_or (Some (entry_text e)) ''(empty)'')"

text \<open>
  Lines 379 to 409: the content is the edited value when it is truthy, the original
  otherwise, and the send is chosen by the fields of the original message.
\<close>

definition text_to_post :: "entry \<Rightarrow> string" where
  "text_to_post e = str_or (edited_text e) (str_or (Some (entry_text e)) [])"

definition caption_to_post :: "entry \<Rightarrow> string" where
  "caption_to_post e = str_or (edited_caption e) (str_or (Some (entry_caption e)) [])"

definition caption_arg :: "entry \<Rightarrow> string option" where
  "caption_arg e = (if caption_to_post e = [] then None else Some (caption_to_post e))"

definition publish :: "config \<Rightarrow> entry \<Rightarrow> effect list" where
  "publish cfg e =
     (let msg = message_obj e
      in if truthy (msg_text msg) then [PublishMessage (CHANNEL_ID cfg) (text_to_post e)]
         else if msg_photo msg \<noteq> []
         then [PublishPhoto (CHANNEL_ID cfg) (last (msg_photo msg)) (caption_arg e)]
         else if msg_video msg \<noteq> None
         then [PublishVideo (CHANNEL_ID cfg) (the (msg_video msg)) (caption_arg e)]
         else if msg_document msg \<noteq> None
         then [PublishDocument (CHANNEL_ID cfg) (the (msg_document msg)) (caption_arg e)]
         else if msg_voice msg \<noteq> None
         then [PublishVoice (CHANNEL_ID cfg) (the (msg_voice msg)) (caption_arg e)]
         else [])"

text \<open>
  \<^verbatim>\<open>callback_handler\<close>, for the moderator \<open>user_id\<close> who pressed the button. When the
  send to the channel raises, nothing is published and the handler reports the error;
  the removal has happened before.
\<close>

definition callback_handler ::
  "config \<Rightarrow> world \<Rightarrow> int \<Rightarrow> callback_data \<Rightarrow> state \<Rightarrow> state \<times> effect list" where
  "callback_handler cfg w user_id cb s =
     (case cb of
        Malformed \<Rightarrow> (s, [EditAdminMessage user_id BadCallbackData])
      | Parsed action qid \<Rightarrow>
          if user_id \<notin> set (ADMINS cfg)
          then (s, [EditAdminMessage user_id NotAuthorizedToModerate])
          else
            (case map_of (queue s) qid of
               None \<Rightarrow> (s, [EditAdminMessage user_id NotFoundOrHandled])
             | Some e \<Rightarrow>
                 if action = ''details''
                 then (s, [EditAdminMessage user_id (details_view (queue s) qid e)])
                 else if action = ''back''
                 then (s, [EditAdminMessage user_id (main_view qid e)])
                 else if action = ''edit''
                 then (s\<lparr>editing_qid := (editing_qid s)(user_id := Some qid)\<rparr>,
                       [EditAdminMessage user_id (edit_prompt qid e)])
                 else if action = ''cancel_edit''
                 then (s\<lparr>editing_qid := (editing_qid s)(user_id := None)\<rparr>,
                       [EditAdminMessage user_id EditCancelled])
                 else if action = ''reject''
                 then (s\<lparr>queue := AList.delete qid (queue s)\<rparr>,
                       [EditAdminMessage user_id (RejectedView qid),
                        SendMessage (chat_id e) RejectedNotice])
                 else if action = ''approve''
                 then (s\<lparr>queue := AList.delete qid (queue s)\<rparr>,
                       if publish cfg e = [] \<or> publish_ok w
                       then publish cfg e
                              @ [EditAdminMessage user_id (ApprovedView qid),
                                 SendMessage (chat_id e) ApprovedNotice]
                       else [EditAdminMessage user_id (ErrorPosting qid)])
                 else (s, [])))"

section \<open>Observing the effects, and sample inputs\<close>

text \<open>
  The text or caption that a send to the channel carries (a missing caption is the
  empty one); \<open>None\<close> for every other effect.
\<close>

definition published_content :: "effect \<Rightarrow> string option" where
  "published_content eff =
     (case eff of
        PublishMessage _ t \<Rightarrow> Some t
      | PublishPhoto _ _ c \<Rightarrow> Some (case c of None \<Rightarrow> [] | Some x \<Rightarrow> x)
      | PublishVideo _ _ c \<Rightarrow> Some (case c of None \<Rightarrow> [] | Some x \<Rightarrow> x)
      | PublishDocument _ _ c \<Rightarrow> Some (case c of None \<Rightarrow> [] | Some x \<Rightarrow> x)
      | PublishVoice _ _ c \<Rightarrow> Some (case c of None \<Rightarrow> [] | Some x \<Rightarrow> x)
      | _ \<Rightarrow> None)"

text \<open>Inputs for the concrete runs: two moderators, a submitter's messages, a clock.\<close>

definition sample_cfg :: config where
  "sample_cfg = \<lparr>CHANNEL_ID = ''@channel'', ADMINS = [1, 2]\<rparr>"

definition text_message :: "int \<Rightarrow> string \<Rightarrow> message" where
  "text_message u t =
     \<lparr>msg_chat_type = ''private'', msg_chat_id = u, msg_message_id = 1, msg_from_id = u,
      msg_first_name = Some ''Ann'', msg_username = None, msg_text = Some t,
      msg_caption = None, msg_photo = [], msg_video = None, msg_document = None,
      msg_voice = None\<rparr>"

definition world_at :: "datetime \<Rightarrow> world" where
  "world_at t =
     \<lparr>now_check = t, now_entry = t, now_record = t, admin_sent = (\<lambda>_. Some 100),
      edit_ok = True, publish_ok = True\<rparr>"

text \<open>
  States for the concrete runs: one queued text submission, a moderator editing it, a
  submitter who has just submitted three times, a full queue while a moderator is
  editing, and a moderator who is editing after three submissions of their own.
\<close>

definition sample_entry :: entry where
  "sample_entry =
     (new_entry (world_at 0) (text_message 5 ''hello''))
       \<lparr>admin_messages := [1 \<mapsto> 100, 2 \<mapsto> 100]\<rparr>"

definition sample_state :: state where
  "sample_state =
     \<lparr>queue = [(1, sample_entry)], qid_counter = 2,
      user_submissions = (\<lambda>_. [])(5 := [0]), editing_qid = (\<lambda>_. None)\<rparr>"

definition editing_state :: state where
  "editing_state = sample_state\<lparr>editing_qid := (\<lambda>_. None)(1 := Some 1)\<rparr>"

definition three_submissions :: state where
  "three_submissions =
     fst (handle_private_message sample_cfg (world_at 0) (text_message 5 ''third'')
       (fst (handle_private_message sample_cfg (world_at 0) (text_message 5 ''second'')
         (fst (handle_private_message sample_cfg (world_at 0) (text_message 5 ''first'')
            initial_state)))))"

definition full_queue_state :: state where
  "full_queue_state =
     \<lparr>queue = (1, sample_entry) # map (\<lambda>i. (int i, sample_entry)) [2..<51],
      qid_counter = 51, user_submissions = (\<lambda>_. []),
      editing_qid = (\<lambda>_. None)(1 := Some 1)\<rparr>"

definition limited_editor_state :: state where
  "limited_editor_state = editing_state\<lparr>user_submissions := (\<lambda>_. [])(1 := [0, 0, 0])\<rparr>"

text \<open>
  Runs of the handlers from the initial state. In \<open>future_submissions\<close> a submitter
  submits three times while the clock reads \<open>far_future\<close>; afterwards the clock is set
  back. In \<open>sticker_edited\<close> a submitter sends a message that has no text and none of the
  four media (a sticker, say), moderator 1 starts an edit of it and sends the new text.
  In \<open>stale_session_state\<close> moderator 1 has submitted three messages and started an edit
  of the first, which moderator 2 then rejects.
\<close>

definition sticker_message :: "int \<Rightarrow> message" where
  "sticker_message u =
     \<lparr>msg_chat_type = ''private'', msg_chat_id = u, msg_message_id = 1, msg_from_id = u,
      msg_first_name = Some ''Ann'', msg_username = None, msg_text = None,
      msg_caption = None, msg_photo = [], msg_video = None, msg_document = None,
      msg_voice = None\<rparr>"



definition sticker_queued :: state where
  "sticker_queued =
     fst (handle_private_message sample_cfg (world_at 0) (sticker_message 5) initial_state)"

definition sticker_edited :: state where
  "sticker_edited =
     fst (handle_private_message sample_cfg (world_at 2000000) (text_message 1 ''hello world'')
       (fst (callback_handler sample_cfg (world_at 1000000) 1 (Parsed ''edit'' 1)
          sticker_queued)))"

definition moderator_submissions :: state where
  "moderator_submissions =
     fst (handle_private_message sample_cfg (world_at 0) (text_message 1 ''third'')
       (fst (handle_private_message sample_cfg (world_at 0) (text_message 1 ''second'')
         (fst (handle_private_message sample_cfg (world_at 0) (text_message 1 ''first'')
            initial_state)))))"

definition stale_session_state :: state where
  "stale_session_state =
     fst (callback_handler sample_cfg (world_at 2000000) 2 (Parsed ''reject'' 1)
       (fst (callback_handler sample_cfg (world_at 1000000) 1 (Parsed ''edit'' 1)
          moderator_submissions)))"

text \<open>
  An override, once stored, is not the empty string; \<open>overrides_nonempty\<close> says so of
  every entry of the queue.
\<close>

definition override_ok :: "entry \<Rightarrow> bool" where
  "override_ok e = (edited_text e \<noteq> Some [] \<and> edited_caption e \<noteq> Some [])"

definition overrides_nonempty :: "state \<Rightarrow> bool" where
  "overrides_nonempty s = list_all (\<lambda>p. override_ok (snd p)) (queue s)"

section \<open>Properties of the rate limiter\<close>

lemma min_list_mem: "xs \<noteq> [] \<Longrightarrow> min_list xs \<in> set (xs :: int list)"
  using Min_in [of "set xs"] by (simp add: min_list_Min)

lemma kept_nonempty:
  assumes "RATE_LIMIT_COUNT \<le> length (filter (in_window now) xs)"
  shows "filter (in_window now) xs \<noteq> []"
  using assms by (auto simp: RATE_LIMIT_COUNT_def)

lemma oldest_in_window:
  assumes "RATE_LIMIT_COUNT \<le> length (filter (in_window now) xs)"
  shows "in_window now (min_list (filter (in_window now) xs))"
proof -
  have "min_list (filter (in_window now) xs) \<in> set (filter (in_window now) xs)"
    using kept_nonempty [OF assms] by (rule min_list_mem)
  then show ?thesis by simp
qed

subsection \<open>The float quotient\<close>

lemma bit_length_million: "bit_length 1000000 = 20"
  by (simp add: bit_length.simps)

lemma bit_length_le: "n < 2 ^ k \<Longrightarrow> bit_length n \<le> k"
proof (induction k arbitrary: n)
  case 0
  then show ?case by (simp add: bit_length.simps)
next
  case (Suc k)
  show ?case
  proof (cases "n \<le> 0")
    case True
    then show ?thesis by (simp add: bit_length.simps)
  next
    case False
    have "n div 2 < 2 ^ k" using Suc.prems by auto
    then have "bit_length (n div 2) \<le> k" by (rule Suc.IH)
    then show ?thesis using False by (subst bit_length.simps) simp
  qed
qed

lemma round_half_even_nonneg: "0 \<le> a \<Longrightarrow> 0 < b \<Longrightarrow> 0 \<le> round_half_even a b"
  by (simp add: round_half_even_def Let_def pos_imp_zdiv_nonneg_iff)


lemma round_half_even_shift:
  assumes "0 < m" and "even c"
  shows "round_half_even (a + c * m) m = round_half_even a m + c"
  using assms by (simp add: round_half_even_def Let_def)

text \<open>
  A remainder scaled by \<open>2\<^sup>s\<close> does not round up to \<open>2\<^sup>s\<close> once \<open>2\<^sup>s\<^sup>+\<^sup>1\<close> exceeds the
  divisor: the rounding error is then smaller than the gap to the next whole number.
\<close>

lemma round_half_even_below:
  assumes m: "0 < m" and f: "0 \<le> f" "f < m" and big: "m < 2 * 2 ^ s"
  shows "0 \<le> round_half_even (f * 2 ^ s) m \<and> round_half_even (f * 2 ^ s) m < 2 ^ s"
proof -
  let ?a = "f * 2 ^ s"
  let ?q = "?a div m" and ?r = "?a mod m"
  have nonneg: "0 \<le> round_half_even ?a m"
    using m f by (simp add: round_half_even_nonneg)
  have a_le: "?a \<le> m * 2 ^ s - 2 ^ s"
  proof -
    have "f * 2 ^ s \<le> (m - 1) * 2 ^ s" using f by (intro mult_right_mono) auto
    then show ?thesis by (simp add: algebra_simps)
  qed
  have pw: "(0::int) < 2 ^ s" by simp
  have a_lt: "?a < m * 2 ^ s" using a_le pw by linarith
  have split: "?a = m * ?q + ?r" by simp
  moreover have "0 \<le> ?r" using m by simp
  ultimately have "m * ?q \<le> ?a" by linarith
  with a_lt have "m * ?q < m * 2 ^ s" by linarith
  then have q_lt: "?q < 2 ^ s" using m by (simp add: mult_less_cancel_left_pos)
  show ?thesis
  proof (cases "?q + 1 < 2 ^ s")
    case True
    have "round_half_even ?a m \<le> ?q + 1" by (simp add: round_half_even_def Let_def)
    with True nonneg show ?thesis by simp
  next
    case False
    with q_lt have q: "?q = 2 ^ s - 1" by simp
    from split have "?r = ?a - m * (2 ^ s - 1)" using q by simp
    then have "?r \<le> m - 2 ^ s" using a_le by (simp add: algebra_simps)
    then have "2 * ?r < m" using big by simp
    then have "round_half_even ?a m = ?q" by (simp add: round_half_even_def Let_def)
    with q_lt nonneg show ?thesis by simp
  qed
qed

lemma rounded_floor:
  assumes m: "0 < m" and n: "0 \<le> n" and big: "m < 2 * 2 ^ s" and s: "0 < s"
  shows "round_half_even (n * 2 ^ s) m div 2 ^ s = n div m"
proof -
  let ?k = "n div m" and ?f = "n mod m"
  have f: "0 \<le> ?f" "?f < m" using m by simp_all
  have "n = ?f + ?k * m" by simp
  then have "n * 2 ^ s = ?f * 2 ^ s + (?k * 2 ^ s) * m"
    by (metis (no_types, lifting) distrib_right mult.assoc mult.commute)
  moreover have "even (?k * 2 ^ s)" using s by simp
  ultimately have "round_half_even (n * 2 ^ s) m = round_half_even (?f * 2 ^ s) m + ?k * 2 ^ s"
    using round_half_even_shift [OF m, of "?k * 2 ^ s" "?f * 2 ^ s"] by simp
  moreover note round_half_even_below [OF m f big]
  ultimately show ?thesis by (simp add: div_pos_pos_trivial)
qed

text \<open>
  Below \<open>2\<^sup>3\<^sup>4\<close> seconds the scaling power is at least 19, and \<open>2\<^sup>2\<^sup>0\<close> exceeds \<open>10\<^sup>6\<close>: the
  truncated float quotient is the exact floor.
\<close>

lemma int_true_div_exact:
  assumes n: "0 \<le> n" and range: "n < 2 ^ 34 * 1000000"
  shows "int_true_div n 1000000 = n div 1000000"
proof (cases "n = 0")
  case True
  then show ?thesis by (simp add: int_true_div_def)
next
  case False
  define s0 where "s0 = 53 + int (bit_length 1000000) - int (bit_length n)"
  define s where "s = (if (if 0 \<le> s0 then n * 2 ^ nat s0 < 2 ^ 53 * 1000000
                      else n < 2 ^ 53 * 1000000 * 2 ^ nat (- s0))
                  then s0 else s0 - 1)"
  have "n < 2 ^ 54" using range by simp
  then have "bit_length n \<le> 54" by (rule bit_length_le)
  then have s0: "19 \<le> s0" by (simp add: s0_def bit_length_million)
  have s: "19 \<le> s"
  proof (cases "s0 = 19")
    case True
    then have "n * 2 ^ nat s0 < 2 ^ 53 * 1000000" using range by simp
    then show ?thesis using True by (simp add: s_def)
  next
    case False
    then show ?thesis using s0 by (simp add: s_def)
  qed
  then have "(2::int) ^ 19 \<le> 2 ^ nat s"
    by (intro power_increasing) auto
  then have big: "(1000000::int) < 2 * 2 ^ nat s" by simp
  have pos: "0 < nat s" using s by simp
  have "int_true_div n 1000000 = round_half_even (n * 2 ^ nat s) 1000000 div 2 ^ nat s"
    using False s unfolding int_true_div_def s_def s0_def Let_def by simp
  also have "\<dots> = n div 1000000"
    using rounded_floor [OF _ n big pos] by simp
  finally show ?thesis .
qed

lemma int_total_seconds_exact:
  assumes "0 \<le> d" and "d < 17179869184000000"
  shows "int_total_seconds d = d div 1000000"
  using assms by (simp add: int_total_seconds_def int_true_div_exact)



lemma int_total_seconds_rounds_up_far: "int_total_seconds 200000000000999999 = 200000000001"
  by (simp add: int_total_seconds_def int_true_div_def round_half_even_def bit_length.simps
      Let_def)

subsection \<open>The wait of a denial\<close>

lemma check_rate_limit_fst:
  "fst (check_rate_limit subs u now) = subs(u := filter (in_window now) (subs u))"
  by (simp add: check_rate_limit_def Let_def)



section \<open>Properties of the handlers\<close>

subsection \<open>The concrete runs\<close>

lemmas sample_defs =
  sample_cfg_def text_message_def world_at_def initial_state_def sample_entry_def
  sample_state_def editing_state_def

lemmas run_defs =
  handle_private_message_def check_rate_limit_def in_window_def timedelta_seconds_def
  RATE_LIMIT_WINDOW_def RATE_LIMIT_COUNT_def MAX_QUEUE_SIZE_def int_total_seconds_exact
  next_qid_def new_entry_def get_queue_position_def admin_notice_def truthy_def
  truthy_int_def str_or_def msg_has_media_def format_sender_info_def Let_def

lemma sample_state_run:
  "handle_private_message sample_cfg (world_at 0) (text_message 5 ''hello'') initial_state
     = (sample_state,
        [Reply 5 (InQueue (Some 1) 1),
         SendMessage 1 (NewTextSubmission 1 (''Ann'', ''No username'', 5) ''hello''),
         SendMessage 2 (NewTextSubmission 1 (''Ann'', ''No username'', 5) ''hello'')])"
  by (simp add: run_defs sample_defs)

lemma editing_state_run:
  "fst (callback_handler sample_cfg (world_at 1) 1 (Parsed ''edit'' 1) sample_state) = editing_state"
  by (simp add: callback_handler_def sample_defs)

lemma three_submissions_window:
  "user_submissions three_submissions = (\<lambda>_. [])(5 := [0, 0, 0])
   \<and> map fst (queue three_submissions) = [1, 2, 3]
   \<and> qid_counter three_submissions = 4"
  by (simp add: three_submissions_def run_defs sample_defs)

subsection \<open>The wait after the clock was set back\<close>



subsection \<open>Denied submissions\<close>

lemma handle_edit_text_not_denial:
  "snd (handle_edit_text cfg w msg s) \<noteq> [Reply c (RateLimitExceeded m sec)]"
  "snd (handle_edit_text cfg w msg s) \<noteq> [Reply c QueueIsFull]"
  by (simp_all add: handle_edit_text_def Let_def split: option.split)

text \<open>
  Claim C7. When \<^const>\<open>handle_private_message\<close> answers with the rate-limit or the
  queue-full reply and nothing else, the queue, the id counter and the edit sessions are
  as before, and the rate windows differ only by the pruning of the submitter's expired
  timestamps: no window gains a timestamp.
\<close>

theorem denied_submission_creates_no_state:
  assumes run: "handle_private_message cfg w msg s = (s', effs)"
    and denied: "effs = [Reply (msg_chat_id msg) (RateLimitExceeded m sec)]
                 \<or> effs = [Reply (msg_chat_id msg) QueueIsFull]"
  shows "queue s' = queue s \<and> qid_counter s' = qid_counter s
       \<and> editing_qid s' = editing_qid s
       \<and> user_submissions s' =
           (user_submissions s)
             (msg_from_id msg :=
                filter (in_window (now_check w)) (user_submissions s (msg_from_id msg)))
       \<and> length (user_submissions s' u) \<le> length (user_submissions s u)
       \<and> set (user_submissions s' u) \<subseteq> set (user_submissions s u)"
proof -
  let ?chk = "check_rate_limit (user_submissions s) (msg_from_id msg) (now_check w)"
  let ?s1 = "s\<lparr>user_submissions := fst ?chk\<rparr>"
  have priv: "msg_chat_type msg = ''private''"
  proof (rule ccontr)
    assume "msg_chat_type msg \<noteq> ''private''"
    then have "handle_private_message cfg w msg s = (s, [])"
      by (simp add: handle_private_message_def)
    with run denied show False by auto
  qed
  have "s' = ?s1"
  proof (cases "fst (snd ?chk)")
    case False
    then show ?thesis using run priv by (simp add: handle_private_message_def Let_def)
  next
    case allowed: True
    show ?thesis
    proof (cases "MAX_QUEUE_SIZE \<le> length (queue s)")
      case True
      then show ?thesis using run priv allowed by (simp add: handle_private_message_def Let_def)
    next
      case False
      then have False
        using run priv allowed denied handle_edit_text_not_denial [of cfg w msg ?s1]
        by (auto simp: handle_private_message_def Let_def split: if_splits)
      then show ?thesis ..
    qed
  qed
  then show ?thesis by (auto simp: check_rate_limit_fst)
qed

theorem denied_submission_creates_no_state_witness:
  "handle_private_message sample_cfg (world_at 500000) (text_message 5 ''fourth'')
       three_submissions
     = (three_submissions, [Reply 5 (RateLimitExceeded 4 59)])
   \<and> user_submissions three_submissions 5 = [0, 0, 0]"
proof -
  have w: "user_submissions three_submissions = (\<lambda>_. [])(5 := [0, 0, 0])"
    using three_submissions_window by simp
  have run: "handle_private_message sample_cfg (world_at 500000) (text_message 5 ''fourth'')
       three_submissions
     = (three_submissions\<lparr>user_submissions := (\<lambda>_. [])(5 := [0, 0, 0])\<rparr>,
        [Reply (msg_chat_id (text_message 5 ''fourth'')) (RateLimitExceeded 4 59)])"
    by (simp add: w run_defs sample_defs)
  have same: "three_submissions\<lparr>user_submissions := (\<lambda>_. [])(5 := [0, 0, 0])\<rparr> = three_submissions"
    using w by simp
  from denied_submission_creates_no_state [OF run, of 4 59 5] run same w
  show ?thesis
    by (simp add: text_message_def world_at_def in_window_def timedelta_seconds_def
        RATE_LIMIT_WINDOW_def)
qed

subsection \<open>Approving and rejecting\<close>

lemma map_of_delete_same: "map_of (AList.delete k q) k = None"
  by (simp add: AList.delete_conv')

lemma callback_approve:
  assumes "user_id \<in> set (ADMINS cfg)" and "map_of (queue s) qid = Some e"
  shows "callback_handler cfg w user_id (Parsed ''approve'' qid) s =
           (s\<lparr>queue := AList.delete qid (queue s)\<rparr>,
            if publish cfg e = [] \<or> publish_ok w
            then publish cfg e @ [EditAdminMessage user_id (ApprovedView qid),
                                  SendMessage (chat_id e) ApprovedNotice]
            else [EditAdminMessage user_id (ErrorPosting qid)])"
  using assms by (simp add: callback_handler_def)

lemma callback_reject:
  assumes "user_id \<in> set (ADMINS cfg)" and "map_of (queue s) qid = Some e"
  shows "callback_handler cfg w user_id (Parsed ''reject'' qid) s =
           (s\<lparr>queue := AList.delete qid (queue s)\<rparr>,
            [EditAdminMessage user_id (RejectedView qid),
             SendMessage (chat_id e) RejectedNotice])"
  using assms by (simp add: callback_handler_def)

text \<open>
  Claim C8. When the send to the channel fails during the approval of a queued
  submission, the moderator who approved is shown the error, and the state is the one a
  successful send leaves: the submission is removed and is not queued again.
\<close>

theorem failed_publish_not_rolled_back:
  assumes "user_id \<in> set (ADMINS cfg)" and "map_of (queue s) qid = Some e"
    and "publish cfg e \<noteq> []"
  shows "fst (callback_handler cfg (w\<lparr>publish_ok := False\<rparr>) user_id (Parsed ''approve'' qid) s)
           = fst (callback_handler cfg (w\<lparr>publish_ok := True\<rparr>) user_id (Parsed ''approve'' qid) s)
       \<and> snd (callback_handler cfg (w\<lparr>publish_ok := False\<rparr>) user_id (Parsed ''approve'' qid) s)
           = [EditAdminMessage user_id (ErrorPosting qid)]
       \<and> queue (fst (callback_handler cfg (w\<lparr>publish_ok := False\<rparr>) user_id
                        (Parsed ''approve'' qid) s))
           = AList.delete qid (queue s)
       \<and> map_of (queue (fst (callback_handler cfg (w\<lparr>publish_ok := False\<rparr>) user_id
                        (Parsed ''approve'' qid) s))) qid = None"
  using assms by (simp add: callback_approve map_of_delete_same)

lemma sample_entry_publish:
  "publish sample_cfg sample_entry = [PublishMessage ''@channel'' ''hello'']"
  by (simp add: publish_def text_to_post_def run_defs sample_defs)

theorem failed_publish_not_rolled_back_witness:
  "snd (callback_handler sample_cfg ((world_at 9)\<lparr>publish_ok := False\<rparr>) 2
          (Parsed ''approve'' 1) sample_state)
     = [EditAdminMessage 2 (ErrorPosting 1)]
   \<and> queue (fst (callback_handler sample_cfg ((world_at 9)\<lparr>publish_ok := False\<rparr>) 2
          (Parsed ''approve'' 1) sample_state)) = []
   \<and> fst (callback_handler sample_cfg ((world_at 9)\<lparr>publish_ok := False\<rparr>) 2
          (Parsed ''approve'' 1) sample_state)
     = fst (callback_handler sample_cfg ((world_at 9)\<lparr>publish_ok := True\<rparr>) 2
          (Parsed ''approve'' 1) sample_state)"
proof -
  have a: "2 \<in> set (ADMINS sample_cfg)" by (simp add: sample_cfg_def)
  have p: "map_of (queue sample_state) 1 = Some sample_entry" by (simp add: sample_state_def)
  have n: "publish sample_cfg sample_entry \<noteq> []" by (simp add: sample_entry_publish)
  have del: "AList.delete 1 (queue sample_state) = []"
    by (simp add: sample_state_def AList.delete_eq)
  from failed_publish_not_rolled_back [OF a p n, of "world_at 9"] del
  show ?thesis by auto
qed

subsection \<open>Edits\<close>

lemma handle_edit_text_present:
  assumes "msg_chat_type msg = ''private''" and "msg_from_id msg \<in> set (ADMINS cfg)"
    and "editing_qid s (msg_from_id msg) = Some qid" and "qid \<noteq> 0"
    and "map_of (queue s) qid = Some e"
  shows "fst (handle_edit_text cfg w msg s) =
           s\<lparr>queue := AList.update qid
                         (if has_media e then e\<lparr>edited_caption := Some (str_or (msg_text msg) [])\<rparr>
                          else e\<lparr>edited_text := Some (str_or (msg_text msg) [])\<rparr>) (queue s),
             editing_qid := (editing_qid s)(msg_from_id msg := None)\<rparr>"
  using assms by (simp add: handle_edit_text_def truthy_int_def Let_def)

lemma handle_edit_text_gone:
  assumes "msg_chat_type msg = ''private''" and "msg_from_id msg \<in> set (ADMINS cfg)"
    and "editing_qid s (msg_from_id msg) = Some qid" and "qid \<noteq> 0"
    and "map_of (queue s) qid = None"
  shows "handle_edit_text cfg w msg s =
           (s\<lparr>editing_qid := (editing_qid s)(msg_from_id msg := None)\<rparr>,
            [Reply (msg_chat_id msg) SubmissionNotFound])"
  using assms by (simp add: handle_edit_text_def truthy_int_def Let_def)

lemma update_present_keys:
  assumes "map_of q k = Some v"
  shows "map fst (AList.update k v' q) = map fst q"
proof -
  have "k \<in> fst ` set q"
    using assms by (metis map_of_eq_None_iff option.distinct(1))
  then show ?thesis by (simp add: AList.update_keys)
qed

text \<open>
  Claim C10. An edit of a queued submission writes only the override of its kind (the
  edited caption of a media entry, the edited text of any other); the original text and
  caption, the sender fields, the timestamp and every other field of the entry, every
  other entry of the queue, the order of the queue, the id counter and the rate windows
  are unchanged.
\<close>

theorem edit_changes_only_override:
  assumes "msg_chat_type msg = ''private''" and "msg_from_id msg \<in> set (ADMINS cfg)"
    and "editing_qid s (msg_from_id msg) = Some qid" and "qid \<noteq> 0"
    and "map_of (queue s) qid = Some e"
  shows "(\<exists>e'. map_of (queue (fst (handle_edit_text cfg w msg s))) qid = Some e'
          \<and> (if has_media e
              then edited_caption e' = Some (str_or (msg_text msg) []) \<and> edited_text e' = edited_text e
              else edited_text e' = Some (str_or (msg_text msg) []) \<and> edited_caption e' = edited_caption e)
          \<and> entry_text e' = entry_text e \<and> entry_caption e' = entry_caption e
          \<and> has_media e' = has_media e \<and> message_obj e' = message_obj e
          \<and> chat_id e' = chat_id e \<and> message_id e' = message_id e
          \<and> sender_info e' = sender_info e \<and> sender_id e' = sender_id e
          \<and> sender_name e' = sender_name e \<and> sender_username e' = sender_username e
          \<and> timestamp e' = timestamp e \<and> admin_messages e' = admin_messages e)
       \<and> (\<forall>other. other \<noteq> qid \<longrightarrow>
             map_of (queue (fst (handle_edit_text cfg w msg s))) other = map_of (queue s) other)
       \<and> map fst (queue (fst (handle_edit_text cfg w msg s))) = map fst (queue s)
       \<and> qid_counter (fst (handle_edit_text cfg w msg s)) = qid_counter s
       \<and> user_submissions (fst (handle_edit_text cfg w msg s)) = user_submissions s"
proof -
  note st = handle_edit_text_present [OF assms, of w]
  have entry: "\<exists>e'. map_of (queue (fst (handle_edit_text cfg w msg s))) qid = Some e'
          \<and> (if has_media e
              then edited_caption e' = Some (str_or (msg_text msg) []) \<and> edited_text e' = edited_text e
              else edited_text e' = Some (str_or (msg_text msg) []) \<and> edited_caption e' = edited_caption e)
          \<and> entry_text e' = entry_text e \<and> entry_caption e' = entry_caption e
          \<and> has_media e' = has_media e \<and> message_obj e' = message_obj e
          \<and> chat_id e' = chat_id e \<and> message_id e' = message_id e
          \<and> sender_info e' = sender_info e \<and> sender_id e' = sender_id e
          \<and> sender_name e' = sender_name e \<and> sender_username e' = sender_username e
          \<and> timestamp e' = timestamp e \<and> admin_messages e' = admin_messages e"
    by (simp add: st AList.update_conv')
  have others: "\<forall>other. other \<noteq> qid \<longrightarrow>
           map_of (queue (fst (handle_edit_text cfg w msg s))) other = map_of (queue s) other"
    by (simp add: st AList.update_conv')
  have keys: "map fst (queue (fst (handle_edit_text cfg w msg s))) = map fst (queue s)"
    using assms(5) by (simp add: st update_present_keys)
  have rest: "qid_counter (fst (handle_edit_text cfg w msg s)) = qid_counter s"
    "user_submissions (fst (handle_edit_text cfg w msg s)) = user_submissions s"
    by (simp_all add: st)
  from entry others keys rest show ?thesis by blast
qed

theorem edit_changes_only_override_witness:
  "queue (fst (handle_edit_text sample_cfg (world_at 9) (text_message 1 ''hello world'')
                 editing_state))
     = [(1, sample_entry\<lparr>edited_text := Some ''hello world''\<rparr>)]
   \<and> map_of (queue (fst (handle_edit_text sample_cfg (world_at 9)
                 (text_message 1 ''hello world'') editing_state))) 2
     = map_of (queue editing_state) 2
   \<and> qid_counter (fst (handle_edit_text sample_cfg (world_at 9)
                 (text_message 1 ''hello world'') editing_state)) = 2"
proof -
  let ?msg = "text_message 1 ''hello world''"
  have a: "msg_chat_type ?msg = ''private''" by (simp add: text_message_def)
  have b: "msg_from_id ?msg \<in> set (ADMINS sample_cfg)"
    by (simp add: text_message_def sample_cfg_def)
  have c: "editing_qid editing_state (msg_from_id ?msg) = Some 1"
    by (simp add: text_message_def editing_state_def)
  have d: "(1::int) \<noteq> 0" by simp
  have e: "map_of (queue editing_state) 1 = Some sample_entry"
    by (simp add: editing_state_def sample_state_def)
  have run: "queue (fst (handle_edit_text sample_cfg (world_at 9) ?msg editing_state))
     = [(1, sample_entry\<lparr>edited_text := Some ''hello world''\<rparr>)]"
    unfolding handle_edit_text_present [OF a b c d e]
    by (simp add: editing_state_def sample_state_def sample_entry_def new_entry_def
        msg_has_media_def text_message_def str_or_def)
  from edit_changes_only_override [OF a b c d e, of "world_at 9"] run
  show ?thesis by (simp add: editing_state_def sample_state_def)
qed

text \<open>
  A removal and the editor's session, at the level of \<^const>\<open>handle_edit_text\<close>: approving
  or rejecting a submission that a moderator is editing applies and removes it and leaves
  that moderator's session in place; \<^const>\<open>handle_edit_text\<close>, when the session's next
  input reaches it, finds the submission gone, answers that it was not found, clears the
  session and leaves the queue as it is.
\<close>

lemma removal_leaves_edit_session_stale:
  assumes actor: "actor \<in> set (ADMINS cfg)"
    and action: "action = ''approve'' \<or> action = ''reject''"
    and present: "map_of (queue s) qid = Some e"
    and priv: "msg_chat_type msg = ''private''"
    and editor: "msg_from_id msg \<in> set (ADMINS cfg)"
    and session: "editing_qid s (msg_from_id msg) = Some qid" and nz: "qid \<noteq> 0"
    and s1: "s1 = fst (callback_handler cfg w actor (Parsed action qid) s)"
  shows "snd (callback_handler cfg w actor (Parsed action qid) s)
           = (if action = ''reject''
              then [EditAdminMessage actor (RejectedView qid),
                    SendMessage (chat_id e) RejectedNotice]
              else if publish cfg e = [] \<or> publish_ok w
              then publish cfg e @ [EditAdminMessage actor (ApprovedView qid),
                                    SendMessage (chat_id e) ApprovedNotice]
              else [EditAdminMessage actor (ErrorPosting qid)])
       \<and> queue s1 = AList.delete qid (queue s)
       \<and> map_of (queue s1) qid = None
       \<and> editing_qid s1 (msg_from_id msg) = Some qid
       \<and> handle_edit_text cfg w' msg s1
           = (s1\<lparr>editing_qid := (editing_qid s1)(msg_from_id msg := None)\<rparr>,
              [Reply (msg_chat_id msg) SubmissionNotFound])
       \<and> queue (fst (handle_edit_text cfg w' msg s1)) = queue s1
       \<and> editing_qid (fst (handle_edit_text cfg w' msg s1)) (msg_from_id msg) = None"
proof -
  have st: "s1 = s\<lparr>queue := AList.delete qid (queue s)\<rparr>"
    using action s1 callback_approve [OF actor present] callback_reject [OF actor present]
    by auto
  have effs: "snd (callback_handler cfg w actor (Parsed action qid) s)
           = (if action = ''reject''
              then [EditAdminMessage actor (RejectedView qid),
                    SendMessage (chat_id e) RejectedNotice]
              else if publish cfg e = [] \<or> publish_ok w
              then publish cfg e @ [EditAdminMessage actor (ApprovedView qid),
                                    SendMessage (chat_id e) ApprovedNotice]
              else [EditAdminMessage actor (ErrorPosting qid)])"
    using action callback_approve [OF actor present] callback_reject [OF actor present]
    by auto
  have gone: "map_of (queue s1) qid = None" by (simp add: st map_of_delete_same)
  have sess: "editing_qid s1 (msg_from_id msg) = Some qid" using session by (simp add: st)
  note stale = handle_edit_text_gone [OF priv editor sess nz gone, of w']
  show ?thesis using effs gone sess stale by (simp add: st)
qed

subsection \<open>The content that an approval selects\<close>

lemma publish_text_submission:
  assumes "truthy (msg_text (message_obj e))"
  shows "map published_content (publish cfg e) = [Some (str_or (edited_text e) (entry_text e))]"
  using assms
  by (simp add: publish_def text_to_post_def published_content_def str_or_def Let_def
      split: option.split)

lemma publish_media_submission:
  assumes "\<not> truthy (msg_text (message_obj e))" and "msg_has_media (message_obj e)"
  shows "map published_content (publish cfg e)
           = [Some (str_or (edited_caption e) (entry_caption e))]"
  using assms
  by (auto simp: publish_def caption_to_post_def caption_arg_def published_content_def
      str_or_def msg_has_media_def Let_def split: option.split)

text \<open>
  The handlers never store an empty override: a new entry has none, and an edit arrives
  through \<^const>\<open>handle_private_message\<close> only with a non-empty text.
\<close>

lemma list_all_update:
  "list_all (\<lambda>p. P (snd p)) q \<Longrightarrow> P v \<Longrightarrow> list_all (\<lambda>p. P (snd p)) (AList.update k v q)"
  by (induction q) auto

lemma list_all_delete:
  "list_all (\<lambda>p. P (snd p)) q \<Longrightarrow> list_all (\<lambda>p. P (snd p)) (AList.delete k q)"
  by (induction q) auto

lemma list_all_lookup:
  "list_all (\<lambda>p. P (snd p)) q \<Longrightarrow> map_of q k = Some v \<Longrightarrow> P v"
  by (induction q) (auto split: if_splits)

lemma notify_admins_overrides:
  "list_all (\<lambda>p. override_ok (snd p)) q \<Longrightarrow>
   list_all (\<lambda>p. override_ok (snd p)) (fst (notify_admins w msg qid info admins q))"
proof (induction admins arbitrary: q)
  case Nil
  then show ?case by simp
next
  case (Cons a admins)
  show ?case
  proof (cases "admin_notice msg qid info")
    case None
    then show ?thesis using Cons by simp
  next
    case (Some n)
    show ?thesis
    proof (cases "admin_sent w a")
      case None
      then show ?thesis using Some Cons by simp
    next
      case (Some mid)
      let ?q' = "case map_of q qid of None \<Rightarrow> q
                 | Some e \<Rightarrow> AList.update qid (e\<lparr>admin_messages := (admin_messages e)(a \<mapsto> mid)\<rparr>) q"
      have "list_all (\<lambda>p. override_ok (snd p)) ?q'"
      proof (cases "map_of q qid")
        case None
        then show ?thesis using Cons.prems by simp
      next
        case (Some e)
        have "override_ok e" using Cons.prems Some by (rule list_all_lookup)
        then have "override_ok (e\<lparr>admin_messages := (admin_messages e)(a \<mapsto> mid)\<rparr>)"
          by (simp add: override_ok_def)
        then show ?thesis using Some Cons.prems by (simp add: list_all_update)
      qed
      then have "list_all (\<lambda>p. override_ok (snd p)) (fst (notify_admins w msg qid info admins ?q'))"
        by (rule Cons.IH)
      then show ?thesis using Some \<open>admin_notice msg qid info = Some n\<close> by (simp add: Let_def)
    qed
  qed
qed

lemma handle_edit_text_overrides:
  assumes "overrides_nonempty s" and "truthy (msg_text msg)"
  shows "overrides_nonempty (fst (handle_edit_text cfg w msg s))"
proof -
  have ne: "str_or (msg_text msg) [] \<noteq> []"
    using assms(2) by (auto simp: truthy_def str_or_def split: option.splits)
  have upd: "list_all (\<lambda>p. override_ok (snd p))
      (AList.update k (if has_media e then e\<lparr>edited_caption := Some (str_or (msg_text msg) [])\<rparr>
                       else e\<lparr>edited_text := Some (str_or (msg_text msg) [])\<rparr>) (queue s))"
    if "map_of (queue s) k = Some e" for k e
  proof -
    have "override_ok e" using assms(1) that unfolding overrides_nonempty_def by (rule list_all_lookup)
    then have "override_ok (if has_media e then e\<lparr>edited_caption := Some (str_or (msg_text msg) [])\<rparr>
                       else e\<lparr>edited_text := Some (str_or (msg_text msg) [])\<rparr>)"
      using ne by (simp add: override_ok_def)
    then show ?thesis using assms(1) unfolding overrides_nonempty_def by (simp add: list_all_update)
  qed
  show ?thesis
    using assms(1) upd
    by (auto simp: handle_edit_text_def overrides_nonempty_def Let_def split: option.splits)
qed

lemma handle_private_message_overrides:
  assumes "overrides_nonempty s"
  shows "overrides_nonempty (fst (handle_private_message cfg w msg s))"
proof -
  let ?s1 = "s\<lparr>user_submissions := fst (check_rate_limit (user_submissions s) (msg_from_id msg) (now_check w))\<rparr>"
  have s1: "overrides_nonempty ?s1" using assms by (simp add: overrides_nonempty_def)
  have fresh: "override_ok (new_entry w msg)" by (simp add: override_ok_def new_entry_def)
  have ins: "list_all (\<lambda>p. override_ok (snd p)) (AList.update k (new_entry w msg) (queue s))" for k
    using assms fresh unfolding overrides_nonempty_def by (simp add: list_all_update)
  have acc: "list_all (\<lambda>p. override_ok (snd p))
      (fst (notify_admins w msg k info admins (AList.update k (new_entry w msg) (queue s))))"
    for k info admins
    using ins by (rule notify_admins_overrides)
  show ?thesis
    using s1 acc handle_edit_text_overrides [OF s1, of msg cfg w]
    by (auto simp: handle_private_message_def overrides_nonempty_def next_qid_def Let_def)
qed

lemma callback_handler_overrides:
  assumes "overrides_nonempty s"
  shows "overrides_nonempty (fst (callback_handler cfg w user_id cb s))"
  using assms
  by (auto simp: callback_handler_def overrides_nonempty_def list_all_delete
      split: callback_data.splits option.splits)

lemma cancel_edit_overrides:
  "overrides_nonempty s \<Longrightarrow> overrides_nonempty (fst (cancel_edit msg s))"
  by (simp add: cancel_edit_def overrides_nonempty_def)

lemma initial_state_overrides: "overrides_nonempty initial_state"
  by (simp add: overrides_nonempty_def initial_state_def)

text \<open>
  On such a store the content of an approval is the edited value when one is present and
  the original otherwise, for a text message and for the four media; for any other
  message nothing is sent to the channel.
\<close>

lemma approve_publishes_override:
  assumes "overrides_nonempty s" and "map_of (queue s) qid = Some e"
  shows "map published_content (publish cfg e)
           = (if truthy (msg_text (message_obj e))
              then [Some (case edited_text e of None \<Rightarrow> entry_text e | Some t \<Rightarrow> t)]
              else if msg_has_media (message_obj e)
              then [Some (case edited_caption e of None \<Rightarrow> entry_caption e | Some c \<Rightarrow> c)]
              else [])"
proof -
  have ok: "override_ok e"
    using assms unfolding overrides_nonempty_def by (rule list_all_lookup)
  have t: "str_or (edited_text e) (entry_text e)
      = (case edited_text e of None \<Rightarrow> entry_text e | Some t \<Rightarrow> t)"
    using ok by (auto simp: str_or_def override_ok_def split: option.splits)
  have c: "str_or (edited_caption e) (entry_caption e)
      = (case edited_caption e of None \<Rightarrow> entry_caption e | Some c \<Rightarrow> c)"
    using ok by (auto simp: str_or_def override_ok_def split: option.splits)
  have none: "publish cfg e = []"
    if "\<not> truthy (msg_text (message_obj e))" "\<not> msg_has_media (message_obj e)"
    using that by (simp add: publish_def msg_has_media_def Let_def)
  show ?thesis
    using publish_text_submission [of e cfg] publish_media_submission [of e cfg] none t c
    by simp
qed

subsection \<open>One moderator after the other\<close>

lemma callback_not_admin:
  assumes "user_id \<notin> set (ADMINS cfg)"
  shows "callback_handler cfg w user_id (Parsed action qid) s
           = (s, [EditAdminMessage user_id NotAuthorizedToModerate])"
  using assms by (simp add: callback_handler_def)

lemma callback_absent:
  assumes "user_id \<in> set (ADMINS cfg)" and "map_of (queue s) qid = None"
  shows "callback_handler cfg w user_id (Parsed action qid) s
           = (s, [EditAdminMessage user_id NotFoundOrHandled])"
  using assms by (simp add: callback_handler_def)

lemma second_action_not_found:
  assumes "first \<in> set (ADMINS cfg)" and "second \<in> set (ADMINS cfg)"
    and "a1 = ''approve'' \<or> a1 = ''reject''"
    and "map_of (queue s) qid = Some e"
    and "s1 = fst (callback_handler cfg w first (Parsed a1 qid) s)"
  shows "callback_handler cfg w' second (Parsed a2 qid) s1
           = (s1, [EditAdminMessage second NotFoundOrHandled])"
proof -
  have "s1 = s\<lparr>queue := AList.delete qid (queue s)\<rparr>"
    using assms callback_approve [OF assms(1,4)] callback_reject [OF assms(1,4)] by auto
  then have "map_of (queue s1) qid = None" by (simp add: map_of_delete_same)
  with assms(2) show ?thesis by (rule callback_absent)
qed

subsection \<open>The wait the submitter is told\<close>

lemma floor_step: "(d::int) < (d div 1000000 + 1) * 1000000"
proof -
  have "d = d div 1000000 * 1000000 + d mod 1000000" by simp
  moreover have "d mod 1000000 < 1000000" by simp
  ultimately show ?thesis by (simp add: algebra_simps)
qed

lemma oldest_gone_after_wait_plus_one:
  assumes "check_rate_limit subs user_id now = (subs', False, wait_seconds)"
    and past: "min_list (filter (in_window now) (subs user_id)) \<le> now"
  shows "\<not> in_window (now + timedelta_seconds (wait_seconds + 1))
             (min_list (filter (in_window now) (subs user_id)))"
proof -
  let ?kept = "filter (in_window now) (subs user_id)"
  let ?d = "min_list ?kept + timedelta_seconds RATE_LIMIT_WINDOW - now"
  have cnt: "RATE_LIMIT_COUNT \<le> length ?kept"
    using assms by (auto simp: check_rate_limit_def Let_def split: if_splits)
  have "in_window now (min_list ?kept)" using cnt by (rule oldest_in_window)
  then have pos: "0 \<le> ?d" by (simp add: in_window_def)
  have small: "?d < 17179869184000000"
    using past by (simp add: timedelta_seconds_def RATE_LIMIT_WINDOW_def)
  have "wait_seconds = int_total_seconds ?d"
    using assms cnt by (simp add: check_rate_limit_def Let_def)
  then have "wait_seconds = ?d div 1000000"
    using pos small by (simp add: int_total_seconds_exact)
  then have "?d < (wait_seconds + 1) * 1000000"
    using floor_step [of ?d] by simp
  then show ?thesis by (simp add: in_window_def timedelta_seconds_def)
qed

text \<open>
  Claim C3, on a run. A submitter submits three times at time 0. A fourth message at the
  same instant is refused with a wait of 300 seconds, one half a second later with a wait
  of 299 seconds. The retry after exactly those 299 seconds is refused again, now with a
  wait of 0 seconds: the wait is rounded down, so the oldest timestamp is still inside
  the window when it has elapsed.
\<close>

theorem retry_after_wait_still_limited:
  "user_submissions three_submissions 5 = [0, 0, 0]
   \<and> handle_private_message sample_cfg (world_at 0) (text_message 5 ''fourth'')
       three_submissions
     = (three_submissions, [Reply 5 (RateLimitExceeded 5 0)])
   \<and> handle_private_message sample_cfg (world_at 500000) (text_message 5 ''fourth'')
       three_submissions
     = (three_submissions, [Reply 5 (RateLimitExceeded 4 59)])
   \<and> handle_private_message sample_cfg (world_at (500000 + 299 * 1000000))
       (text_message 5 ''fourth'') three_submissions
     = (three_submissions, [Reply 5 (RateLimitExceeded 0 0)])"
proof -
  have w: "user_submissions three_submissions = (\<lambda>_. [])(5 := [0, 0, 0])"
    using three_submissions_window by simp
  have same: "three_submissions\<lparr>user_submissions := (\<lambda>_. [])(5 := [0, 0, 0])\<rparr> = three_submissions"
    using w by simp
  have instant: "handle_private_message sample_cfg (world_at 0) (text_message 5 ''fourth'')
       three_submissions
     = (three_submissions\<lparr>user_submissions := (\<lambda>_. [])(5 := [0, 0, 0])\<rparr>,
        [Reply 5 (RateLimitExceeded 5 0)])"
    by (simp add: w run_defs sample_defs)
  have first: "handle_private_message sample_cfg (world_at 500000) (text_message 5 ''fourth'')
       three_submissions
     = (three_submissions\<lparr>user_submissions := (\<lambda>_. [])(5 := [0, 0, 0])\<rparr>,
        [Reply 5 (RateLimitExceeded 4 59)])"
    by (simp add: w run_defs sample_defs)
  have retry: "handle_private_message sample_cfg (world_at (500000 + 299 * 1000000))
       (text_message 5 ''fourth'') three_submissions
     = (three_submissions\<lparr>user_submissions := (\<lambda>_. [])(5 := [0, 0, 0])\<rparr>,
        [Reply 5 (RateLimitExceeded 0 0)])"
    by (simp add: w run_defs sample_defs)
  show ?thesis using instant first retry same w by simp
qed

subsection \<open>Text from a moderator who is editing\<close>

lemma private_message_routes_edit:
  assumes "msg_chat_type msg = ''private''" and "msg_from_id msg \<in> set (ADMINS cfg)"
    and "truthy_int (editing_qid s (msg_from_id msg))" and "truthy (msg_text msg)"
    and "fst (snd (check_rate_limit (user_submissions s) (msg_from_id msg) (now_check w)))"
    and "length (queue s) < MAX_QUEUE_SIZE"
  shows "handle_private_message cfg w msg s
           = handle_edit_text cfg w msg
               (s\<lparr>user_submissions :=
                    fst (check_rate_limit (user_submissions s) (msg_from_id msg) (now_check w))\<rparr>)"
  using assms by (simp add: handle_private_message_def Let_def)

lemma edit_input_refused_when_rate_limited:
  "handle_private_message sample_cfg (world_at 1000000) (text_message 1 ''hello world'')
       limited_editor_state
     = (limited_editor_state, [Reply 1 (RateLimitExceeded 4 59)])"
proof -
  have same: "limited_editor_state\<lparr>user_submissions := (\<lambda>_. [])(1 := [0, 0, 0])\<rparr>
      = limited_editor_state"
    by (simp add: limited_editor_state_def)
  have "handle_private_message sample_cfg (world_at 1000000) (text_message 1 ''hello world'')
       limited_editor_state
     = (limited_editor_state\<lparr>user_submissions := (\<lambda>_. [])(1 := [0, 0, 0])\<rparr>,
        [Reply 1 (RateLimitExceeded 4 59)])"
    by (simp add: limited_editor_state_def run_defs sample_defs)
  then show ?thesis using same by simp
qed

lemma full_queue_length: "length (queue full_queue_state) = 50"
  by (simp add: full_queue_state_def)

text \<open>
  Claim C4, on a run. Moderator 1 is editing submission 1 while the queue holds 50
  entries. The text they send is answered with the queue-full refusal, the entry is not
  edited and the session stays; \<^const>\<open>handle_edit_text\<close>, had the input reached it, applies
  the edit and clears the session.
\<close>

theorem edit_input_refused_when_queue_full:
  "1 \<in> set (ADMINS sample_cfg)
   \<and> editing_qid full_queue_state 1 = Some 1
   \<and> map_of (queue full_queue_state) 1 = Some sample_entry
   \<and> length (queue full_queue_state) = 50
   \<and> handle_private_message sample_cfg (world_at 9) (text_message 1 ''hello world'')
       full_queue_state
     = (full_queue_state, [Reply 1 QueueIsFull])
   \<and> editing_qid (fst (handle_edit_text sample_cfg (world_at 9)
        (text_message 1 ''hello world'') full_queue_state)) 1 = None
   \<and> map_of (queue (fst (handle_edit_text sample_cfg (world_at 9)
        (text_message 1 ''hello world'') full_queue_state))) 1
     = Some (sample_entry\<lparr>edited_text := Some ''hello world''\<rparr>)"
proof -
  let ?msg = "text_message 1 ''hello world''"
  have a: "1 \<in> set (ADMINS sample_cfg)" by (simp add: sample_cfg_def)
  have b: "editing_qid full_queue_state 1 = Some 1" by (simp add: full_queue_state_def)
  have c: "map_of (queue full_queue_state) 1 = Some sample_entry"
    by (simp add: full_queue_state_def)
  have "(\<lambda>_. [])(1 := []) = (\<lambda>_ :: int. [] :: datetime list)"
    by (simp add: fun_eq_iff)
  then have subs: "full_queue_state\<lparr>user_submissions := (\<lambda>_. [])(1 := [])\<rparr> = full_queue_state"
    by (simp add: full_queue_state_def)
  have run: "handle_private_message sample_cfg (world_at 9) ?msg full_queue_state
     = (full_queue_state\<lparr>user_submissions := (\<lambda>_. [])(1 := [])\<rparr>, [Reply 1 QueueIsFull])"
    by (simp add: handle_private_message_def check_rate_limit_def RATE_LIMIT_COUNT_def
        MAX_QUEUE_SIZE_def Let_def text_message_def world_at_def full_queue_state_def)
  have p: "msg_chat_type ?msg = ''private''" by (simp add: text_message_def)
  have ad: "msg_from_id ?msg \<in> set (ADMINS sample_cfg)"
    by (simp add: text_message_def sample_cfg_def)
  have ed: "editing_qid full_queue_state (msg_from_id ?msg) = Some 1"
    by (simp add: text_message_def full_queue_state_def)
  have nz: "(1::int) \<noteq> 0" by simp
  have direct: "fst (handle_edit_text sample_cfg (world_at 9) ?msg full_queue_state)
     = full_queue_state
         \<lparr>queue := AList.update 1 (sample_entry\<lparr>edited_text := Some ''hello world''\<rparr>)
                     (queue full_queue_state),
          editing_qid := (editing_qid full_queue_state)(1 := None)\<rparr>"
    unfolding handle_edit_text_present [OF p ad ed nz c]
    by (simp add: sample_entry_def new_entry_def msg_has_media_def text_message_def str_or_def)
  show ?thesis
    using a b c full_queue_length run subs
    by (simp add: direct AList.update_conv')
qed

lemma stale_session_state_facts:
  "user_submissions stale_session_state = (\<lambda>_. [])(1 := [0, 0, 0])
   \<and> map fst (queue stale_session_state) = [2, 3]
   \<and> map_of (queue stale_session_state) 1 = None
   \<and> editing_qid stale_session_state = (\<lambda>_. None)(1 := Some 1)
   \<and> qid_counter stale_session_state = 4"
  by (simp add: stale_session_state_def moderator_submissions_def callback_handler_def
      run_defs sample_defs AList.delete_eq)

text \<open>
  Claim C9, on a run. Moderator 1 has submitted three messages at time 0 and is editing
  the first; moderator 2 rejects it, which removes it and leaves the session of
  moderator 1 in place. The next text of moderator 1, three seconds after their
  submissions, is answered with the rate-limit refusal and the session stays;
  \<^const>\<open>handle_edit_text\<close>, had the input reached it, answers that the submission was not
  found and clears the session.
\<close>

theorem stale_session_input_refused_when_rate_limited:
  "map_of (queue stale_session_state) 1 = None
   \<and> editing_qid stale_session_state 1 = Some 1
   \<and> handle_private_message sample_cfg (world_at 3000000) (text_message 1 ''hello world'')
       stale_session_state
       = (stale_session_state, [Reply 1 (RateLimitExceeded 4 57)])
   \<and> handle_edit_text sample_cfg (world_at 3000000) (text_message 1 ''hello world'')
       stale_session_state
       = (stale_session_state\<lparr>editing_qid := (\<lambda>_. None)\<rparr>, [Reply 1 SubmissionNotFound])"
proof -
  let ?msg = "text_message 1 ''hello world''"
  note f = stale_session_state_facts
  have w: "user_submissions stale_session_state = (\<lambda>_. [])(1 := [0, 0, 0])"
    using f by simp
  have gone: "map_of (queue stale_session_state) 1 = None" using f by simp
  have sess: "editing_qid stale_session_state (msg_from_id ?msg) = Some 1"
    using f by (simp add: text_message_def)
  have same: "stale_session_state\<lparr>user_submissions := (\<lambda>_. [])(1 := [0, 0, 0])\<rparr>
      = stale_session_state"
    using w by simp
  have run: "handle_private_message sample_cfg (world_at 3000000) ?msg stale_session_state
       = (stale_session_state\<lparr>user_submissions := (\<lambda>_. [])(1 := [0, 0, 0])\<rparr>,
          [Reply 1 (RateLimitExceeded 4 57)])"
    by (simp add: w handle_private_message_def check_rate_limit_def in_window_def
        timedelta_seconds_def RATE_LIMIT_WINDOW_def RATE_LIMIT_COUNT_def
        int_total_seconds_exact Let_def text_message_def world_at_def)
  have p: "msg_chat_type ?msg = ''private''" by (simp add: text_message_def)
  have a: "msg_from_id ?msg \<in> set (ADMINS sample_cfg)"
    by (simp add: text_message_def sample_cfg_def)
  have nz: "(1::int) \<noteq> 0" by simp
  have cleared: "(editing_qid stale_session_state)(msg_from_id ?msg := None) = (\<lambda>_. None)"
    using f by (simp add: text_message_def fun_eq_iff)
  have direct: "handle_edit_text sample_cfg (world_at 3000000) ?msg stale_session_state
       = (stale_session_state\<lparr>editing_qid := (\<lambda>_. None)\<rparr>, [Reply 1 SubmissionNotFound])"
    unfolding handle_edit_text_gone [OF p a sess nz gone] cleared
    by (simp add: text_message_def)
  show ?thesis using gone sess run same direct by (simp add: text_message_def)
qed

subsection \<open>Approving a message that is neither text nor one of the four media\<close>

lemma sticker_queued_run:
  "handle_private_message sample_cfg (world_at 0) (sticker_message 5) initial_state
     = (\<lparr>queue = [(1, new_entry (world_at 0) (sticker_message 5))], qid_counter = 2,
         user_submissions = (\<lambda>_. [])(5 := [0]), editing_qid = (\<lambda>_. None)\<rparr>,
        [Reply 5 (InQueue (Some 1) 1)])"
  by (simp add: run_defs sample_defs sticker_message_def)

lemma sticker_edit_started:
  "fst (callback_handler sample_cfg (world_at 1000000) 1 (Parsed ''edit'' 1) sticker_queued)
     = \<lparr>queue = [(1, new_entry (world_at 0) (sticker_message 5))], qid_counter = 2,
        user_submissions = (\<lambda>_. [])(5 := [0]), editing_qid = (\<lambda>_. None)(1 := Some 1)\<rparr>"
  unfolding sticker_queued_def sticker_queued_run
  by (simp add: callback_handler_def sample_cfg_def)

lemma sticker_edited_eq:
  "sticker_edited
     = \<lparr>queue = [(1, (new_entry (world_at 0) (sticker_message 5))
                       \<lparr>edited_text := Some ''hello world''\<rparr>)],
        qid_counter = 2,
        user_submissions = (\<lambda>_. [])(5 := [0], 1 := []), editing_qid = (\<lambda>_. None)\<rparr>"
proof -
  let ?msg = "text_message 1 ''hello world''"
  let ?e = "new_entry (world_at 0) (sticker_message 5)"
  let ?k2 = "\<lparr>queue = [(1, ?e)], qid_counter = 2,
        user_submissions = (\<lambda>_. [])(5 := [0]), editing_qid = (\<lambda>_. None)(1 := Some 1)\<rparr>"
  let ?k2' = "?k2\<lparr>user_submissions := (\<lambda>_. [])(5 := [0], 1 := [])\<rparr>"
  have p: "msg_chat_type ?msg = ''private''" by (simp add: text_message_def)
  have a: "msg_from_id ?msg \<in> set (ADMINS sample_cfg)"
    by (simp add: text_message_def sample_cfg_def)
  have ed: "truthy_int (editing_qid ?k2 (msg_from_id ?msg))"
    by (simp add: text_message_def truthy_int_def)
  have tx: "truthy (msg_text ?msg)" by (simp add: text_message_def truthy_def)
  have chk: "check_rate_limit (user_submissions ?k2) (msg_from_id ?msg) (now_check (world_at 2000000))
      = ((\<lambda>_. [])(5 := [0], 1 := []), True, 0)"
    by (simp add: check_rate_limit_def RATE_LIMIT_COUNT_def text_message_def Let_def)
  have al: "fst (snd (check_rate_limit (user_submissions ?k2) (msg_from_id ?msg)
      (now_check (world_at 2000000))))"
    using chk by simp
  have len: "length (queue ?k2) < MAX_QUEUE_SIZE" by (simp add: MAX_QUEUE_SIZE_def)
  have routed: "handle_private_message sample_cfg (world_at 2000000) ?msg ?k2
      = handle_edit_text sample_cfg (world_at 2000000) ?msg ?k2'"
    unfolding private_message_routes_edit [OF p a ed tx al len] chk by simp
  have sess: "editing_qid ?k2' (msg_from_id ?msg) = Some 1" by (simp add: text_message_def)
  have nz: "(1::int) \<noteq> 0" by simp
  have pres: "map_of (queue ?k2') 1 = Some ?e" by simp
  have nm: "\<not> has_media ?e"
    by (simp add: new_entry_def sticker_message_def msg_has_media_def)
  have cleared: "((\<lambda>_. None)(1 := Some 1))(1 := None) = (\<lambda>_ :: int. None :: int option)"
    by (simp add: fun_eq_iff)
  have "fst (handle_edit_text sample_cfg (world_at 2000000) ?msg ?k2')
     = \<lparr>queue = [(1, ?e\<lparr>edited_text := Some ''hello world''\<rparr>)], qid_counter = 2,
        user_submissions = (\<lambda>_. [])(5 := [0], 1 := []), editing_qid = (\<lambda>_. None)\<rparr>"
    unfolding handle_edit_text_present [OF p a sess nz pres]
    using nm cleared by (simp add: text_message_def str_or_def)
  then show ?thesis
    unfolding sticker_edited_def sticker_edit_started routed by simp
qed

lemma sticker_entry_publish:
  "publish sample_cfg ((new_entry (world_at 0) (sticker_message 5))\<lparr>edited_text := x\<rparr>) = []"
  by (simp add: publish_def new_entry_def sticker_message_def truthy_def)

text \<open>
  Claim C1, on a run. A submitter sends a message with no text and none of photo, video,
  document and voice; it is queued as submission 1. Moderator 1 edits it to
  \<open>hello world\<close> and approves it. The approval removes the submission and tells the
  moderator and the submitter that it was posted, and nothing is sent to the channel:
  neither the override nor the original. The same holds when it is approved unedited.
\<close>

theorem approval_of_other_message_publishes_nothing:
  "map_of (queue sticker_edited) 1
     = Some ((new_entry (world_at 0) (sticker_message 5))\<lparr>edited_text := Some ''hello world''\<rparr>)
   \<and> callback_handler sample_cfg (world_at 3000000) 1 (Parsed ''approve'' 1) sticker_edited
       = (sticker_edited\<lparr>queue := []\<rparr>,
          [EditAdminMessage 1 (ApprovedView 1), SendMessage 5 ApprovedNotice])
   \<and> callback_handler sample_cfg (world_at 1000000) 1 (Parsed ''approve'' 1) sticker_queued
       = (sticker_queued\<lparr>queue := []\<rparr>,
          [EditAdminMessage 1 (ApprovedView 1), SendMessage 5 ApprovedNotice])"
proof -
  let ?e = "new_entry (world_at 0) (sticker_message 5)"
  have a: "1 \<in> set (ADMINS sample_cfg)" by (simp add: sample_cfg_def)
  have p: "map_of (queue sticker_edited) 1 = Some (?e\<lparr>edited_text := Some ''hello world''\<rparr>)"
    by (simp add: sticker_edited_eq)
  have q: "map_of (queue sticker_queued) 1 = Some ?e"
    by (simp add: sticker_queued_def sticker_queued_run)
  have c: "chat_id (?e\<lparr>edited_text := x\<rparr>) = 5" "chat_id ?e = 5" for x
    by (simp_all add: new_entry_def sticker_message_def)
  have d1: "AList.delete 1 (queue sticker_edited) = []"
    by (simp add: sticker_edited_eq AList.delete_eq)
  have d2: "AList.delete 1 (queue sticker_queued) = []"
    by (simp add: sticker_queued_def sticker_queued_run AList.delete_eq)
  have pub: "publish sample_cfg ?e = []"
    using sticker_entry_publish [of "edited_text ?e"] by simp
  show ?thesis
    unfolding callback_approve [OF a p] callback_approve [OF a q]
    using p c d1 d2 pub by (simp add: sticker_entry_publish)
qed

subsection \<open>Who may cancel\<close>

text \<open>
  Claim C5, on a run. User 999 is not a moderator. Their \<^verbatim>\<open>/cancel\<close> command is answered
  with the cancellation notice, while the same request through the button is refused as
  unauthorised; neither changes the state.
\<close>

theorem cancel_command_not_guarded:
  "999 \<notin> set (ADMINS sample_cfg)
   \<and> cancel_edit (text_message 999 ''/cancel'') sample_state
       = (sample_state, [Reply 999 EditCancelled])
   \<and> callback_handler sample_cfg (world_at 9) 999 (Parsed ''cancel_edit'' 1) sample_state
       = (sample_state, [EditAdminMessage 999 NotAuthorizedToModerate])"
proof -
  have "sample_state\<lparr>editing_qid := (editing_qid sample_state)(999 := None)\<rparr> = sample_state"
    by (simp add: sample_state_def)
  then show ?thesis
    by (simp add: cancel_edit_def callback_handler_def text_message_def sample_cfg_def)
qed

end
